theory Spec2Isabelle
  imports Complex_Main "HOL-Library.AList"
begin

section \<open>Backoff retrier (retry\_utils.py)\<close>

text \<open>
  Exceptions are values. The constructors are the exception classes that
  \<^verbatim>\<open>is_retryable_error\<close> tells apart: the two network errors of the
  \<^verbatim>\<open>requests\<close> library, the two marker classes of the module, an HTTP error
  with the status code of its response (if it has one), the \<^verbatim>\<open>TypeError\<close>
  Python raises for \<^verbatim>\<open>raise None\<close>, the \<^verbatim>\<open>ValueError\<close> that
  \<^verbatim>\<open>time.sleep\<close> raises for a negative argument, and any other exception.
\<close>

datatype exn =
    Timeout
  | ConnectionError
  | RetryableError
  | NonRetryableError
  | HTTPError "int option"
  | TypeError
  | ValueError
  | OtherException string

text \<open>
  An operation may be stateful, so it is a function from the number of earlier
  invocations to what the next invocation does.
\<close>

datatype 'a outcome = Returns 'a | Raises exn

text \<open>
  What a retrier run leaves behind: the value returned (\<open>Inr None\<close> is Python's
  \<^verbatim>\<open>None\<close>) or the exception that left it, the number of invocations of the
  operation, and the arguments of the calls of \<^verbatim>\<open>time.sleep\<close> that returned, in
  order. Delays are Python floats; they are modelled as real numbers.
  \<^verbatim>\<open>time.sleep(delay)\<close> raises \<^verbatim>\<open>ValueError\<close> when \<open>delay\<close> is negative;
  it is called inside the \<^verbatim>\<open>except\<close> handler, so that exception leaves the retrier.
\<close>

record 'a retry_run =
  rr_result :: "exn + 'a option"
  rr_calls :: nat
  rr_sleeps :: "real list"

function wrapper_loop ::
  "int \<Rightarrow> real \<Rightarrow> real \<Rightarrow> (exn \<Rightarrow> bool) \<Rightarrow> (nat \<Rightarrow> 'a outcome) \<Rightarrow>
   int \<Rightarrow> real \<Rightarrow> nat \<Rightarrow> real list \<Rightarrow> 'a retry_run" where
  "wrapper_loop max_attempts max_delay exponential_base exceptions func attempt delay calls slept =
     (if attempt \<le> max_attempts then
        (case func calls of
           Returns v \<Rightarrow> \<lparr>rr_result = Inr (Some v), rr_calls = calls + 1, rr_sleeps = slept\<rparr>
         | Raises e \<Rightarrow>
             if exceptions e then
               if attempt = max_attempts then
                 \<lparr>rr_result = Inl e, rr_calls = calls + 1, rr_sleeps = slept\<rparr>
               else if delay < 0 then
                 \<lparr>rr_result = Inl ValueError, rr_calls = calls + 1, rr_sleeps = slept\<rparr>
               else
                 wrapper_loop max_attempts max_delay exponential_base exceptions func
                   (attempt + 1) (min (delay * exponential_base) max_delay)
                   (calls + 1) (slept @ [delay])
             else \<lparr>rr_result = Inl e, rr_calls = calls + 1, rr_sleeps = slept\<rparr>)
      else \<lparr>rr_result = Inr None, rr_calls = calls, rr_sleeps = slept\<rparr>)"
  by pat_completeness auto
termination
  by (relation "measure (\<lambda>(m, _, _, _, _, a, _, _, _). nat (m + 1 - a))") auto

declare wrapper_loop.simps [simp del]

text \<open>\<^verbatim>\<open>retry_with_backoff(...)(func)\<close>: the decorated function.\<close>

definition wrapper ::
  "int \<Rightarrow> real \<Rightarrow> real \<Rightarrow> real \<Rightarrow> (exn \<Rightarrow> bool) \<Rightarrow> (nat \<Rightarrow> 'a outcome) \<Rightarrow> 'a retry_run" where
  "wrapper max_attempts base_delay max_delay exponential_base exceptions func =
     wrapper_loop max_attempts max_delay exponential_base exceptions func 1 base_delay 0 []"





text \<open>
  The delays a run sleeps when every attempt fails with a retryable exception and no
  delay is negative, read off the loop: the current delay is slept, then multiplied and
  capped. It is used to state what the two loops above sleep.
\<close>

fun backoff_delays :: "real \<Rightarrow> real \<Rightarrow> real \<Rightarrow> nat \<Rightarrow> real list" where
  "backoff_delays max_delay b d 0 = []"
| "backoff_delays max_delay b d (Suc n) = d # backoff_delays max_delay b (min (d * b) max_delay) n"



section \<open>Candidate selection (repo\_finder.py)\<close>

text \<open>
  A repository candidate is a dictionary. \<^verbatim>\<open>_get_repo_info\<close> always sets
  \<^verbatim>\<open>url\<close> and \<^verbatim>\<open>stars\<close>; \<^verbatim>\<open>source\<close> and \<^verbatim>\<open>is_official\<close> are set
  by the discovery strategies only, so they are optional (\<open>None\<close>: the key is absent,
  and \<^verbatim>\<open>r.get(...)\<close> is \<^verbatim>\<open>None\<close>).
\<close>

record repository =
  url :: string
  stars :: int
  source :: "string option"
  is_official :: "bool option"

text \<open>The two tests of the list comprehensions: \<^verbatim>\<open>r.get('is_official')\<close> is truthy,
  and \<^verbatim>\<open>r.get('source') == 'paper_text'\<close>.\<close>

definition marked_official :: "repository \<Rightarrow> bool" where
  "marked_official r = (is_official r = Some True)"

definition from_paper_text :: "repository \<Rightarrow> bool" where
  "from_paper_text r = (source r = Some ''paper_text'')"

definition get_official_repository :: "repository list \<Rightarrow> repository option" where
  "get_official_repository repos =
     (case repos of
        [] \<Rightarrow> None
      | first # _ \<Rightarrow>
          (case filter marked_official repos of
             r # _ \<Rightarrow> Some r
           | [] \<Rightarrow>
               (case filter from_paper_text repos of
                  r # _ \<Rightarrow> Some r
                | [] \<Rightarrow> Some first)))"

section \<open>Strings\<close>

text \<open>
  Python strings are modelled as \<open>string\<close>, a list of characters, restricted to
  ASCII text. The functions below are Python's \<^verbatim>\<open>s.startswith(p)\<close>,
  \<^verbatim>\<open>sub in s\<close>, \<^verbatim>\<open>s.split('\n')\<close>, \<^verbatim>\<open>s.strip()\<close> and \<^verbatim>\<open>str(i)\<close>.
\<close>

fun startswith :: "string \<Rightarrow> string \<Rightarrow> bool" where
  "startswith s [] = True"
| "startswith [] (p # ps) = False"
| "startswith (c # cs) (p # ps) = (c = p \<and> startswith cs ps)"

fun contains :: "string \<Rightarrow> string \<Rightarrow> bool" where
  "contains [] sub = (sub = [])"
| "contains (c # cs) sub = (startswith (c # cs) sub \<or> contains cs sub)"

fun split_newline :: "string \<Rightarrow> string list" where
  "split_newline [] = [[]]"
| "split_newline (c # cs) =
     (if c = CHR 0x0A then [] # split_newline cs
      else (case split_newline cs of
              [] \<Rightarrow> [[c]]
            | l # ls \<Rightarrow> (c # l) # ls))"

definition is_space :: "char \<Rightarrow> bool" where
  "is_space c = (c \<in> set [CHR '' '', CHR 0x09, CHR 0x0A, CHR 0x0B, CHR 0x0C, CHR 0x0D,
                            CHR 0x1C, CHR 0x1D, CHR 0x1E, CHR 0x1F])"

definition strip :: "string \<Rightarrow> string" where
  "strip s = rev (dropWhile is_space (rev (dropWhile is_space s)))"

definition digit_char :: "nat \<Rightarrow> char" where
  "digit_char d = char_of (of_char (CHR ''0'') + d)"

fun str_of_nat :: "nat \<Rightarrow> string" where
  "str_of_nat n = (if n < 10 then [digit_char n] else str_of_nat (n div 10) @ [digit_char (n mod 10)])"

declare str_of_nat.simps [simp del]

definition str_of_int :: "int \<Rightarrow> string" where
  "str_of_int i = (if i < 0 then CHR ''-'' # str_of_nat (nat (- i)) else str_of_nat (nat i))"

section \<open>Monitored executor (executor.py)\<close>

text \<open>
  \<^verbatim>\<open>ExecutionResult\<close>, without its three wall-clock fields (\<^verbatim>\<open>start_time\<close>,
  \<^verbatim>\<open>end_time\<close>, \<^verbatim>\<open>execution_time\<close>). \<open>exit_code\<close> is \<open>None\<close> until a return
  code has been read.
\<close>

record execution_result =
  success :: bool
  exit_code :: "int option"
  stdout :: string
  stderr :: string
  errors :: "string list"
  warnings :: "string list"
  timed_out :: bool

definition ExecutionResult :: execution_result where
  "ExecutionResult =
     \<lparr>success = False, exit_code = None, stdout = [], stderr = [], errors = [],
      warnings = [], timed_out = False\<rparr>"

text \<open>
  What the host does with the command, as far as \<^verbatim>\<open>execute\<close> observes it:
  \<^item> \<open>popen_error\<close>: the message of the exception \<^verbatim>\<open>subprocess.Popen\<close> raises, if it
    raises one (a missing working directory, for example);
  \<^item> \<open>runtime\<close>: the seconds after which the command exits by itself, and \<open>status\<close>
    the return code it exits with;
  \<^item> \<open>killed_status\<close>: the return code read after \<^verbatim>\<open>process.kill()\<close> once the
    process has been waited for (\<open>-9\<close> on POSIX);
  \<^item> \<open>stdout_lines\<close>, \<open>stderr_lines\<close>: the lines the command writes to each stream,
    each with the second at which it is written.
  A reader thread has read a line as soon as it is written, and both readers are done
  when \<^verbatim>\<open>join\<close> returns.
\<close>

record process =
  popen_error :: "string option"
  runtime :: nat
  status :: int
  killed_status :: int
  stdout_lines :: "(nat \<times> string) list"
  stderr_lines :: "(nat \<times> string) list"

text \<open>The text written to a stream in all, and no later than the timeout (the moment of
  the kill), if there is one.\<close>

definition written :: "(nat \<times> string) list \<Rightarrow> string" where
  "written ls = concat (map snd ls)"

definition written_by :: "int option \<Rightarrow> (nat \<times> string) list \<Rightarrow> string" where
  "written_by timeout ls =
     (case timeout of
        None \<Rightarrow> written ls
      | Some t \<Rightarrow> concat (map snd (filter (\<lambda>(s, l). int s \<le> t) ls)))"

text \<open>
  \<^verbatim>\<open>process.wait(timeout=timeout)\<close> and \<^verbatim>\<open>process.communicate(timeout=timeout)\<close>
  raise \<^verbatim>\<open>TimeoutExpired\<close> when a timeout is given and the command is still running
  after that many seconds.
\<close>

definition timeout_expired :: "process \<Rightarrow> int option \<Rightarrow> bool" where
  "timeout_expired proc timeout =
     (case timeout of None \<Rightarrow> False | Some t \<Rightarrow> t < int (runtime proc))"

definition timeout_message :: "int option \<Rightarrow> string" where
  "timeout_message timeout =
     ''Execution timed out after '' @
     (case timeout of None \<Rightarrow> ''None'' | Some t \<Rightarrow> str_of_int t) @ '' seconds''"

definition error_patterns :: "string list" where
  "error_patterns =
     [''Error:'', ''ERROR:'', ''Exception:'', ''Traceback'', ''FAILED'', ''ImportError'',
      ''ModuleNotFoundError'', ''FileNotFoundError'', ''RuntimeError'', ''ValueError'',
      ''TypeError'']"

text \<open>
  \<^verbatim>\<open>_analyze_errors\<close> and \<^verbatim>\<open>_analyze_warnings\<close>. Both end with
  \<^verbatim>\<open>list(set(...))\<close>, whose order Python leaves open: \<open>remdups\<close> fixes one order, and
  only the set of the elements is meant.
\<close>

definition analyze_errors :: "string \<Rightarrow> string list" where
  "analyze_errors err =
     (if err = [] then []
      else remdups (map strip
             (filter (\<lambda>line. \<exists>pattern\<in>set error_patterns. contains line pattern)
                (split_newline err))))"

definition analyze_warnings :: "string \<Rightarrow> string list" where
  "analyze_warnings err =
     (if err = [] then []
      else remdups (map strip
             (filter (\<lambda>line. contains line ''Warning:'' \<or> contains line ''WARNING:'')
                (split_newline err))))"

text \<open>
  The body of the \<^verbatim>\<open>try\<close> of \<^verbatim>\<open>execute\<close> once the process has started. In the
  streaming branch (\<^verbatim>\<open>capture_output and stream_output\<close>) the handler of
  \<^verbatim>\<open>TimeoutExpired\<close> kills the process and neither waits for it nor stores the lines
  read so far, so \<^verbatim>\<open>process.returncode\<close> is still \<^verbatim>\<open>None\<close>. In the other branch
  the handler calls \<^verbatim>\<open>communicate()\<close> again, which waits for the killed process and
  returns what it wrote.
\<close>

definition run_process :: "process \<Rightarrow> int option \<Rightarrow> bool \<Rightarrow> bool \<Rightarrow> execution_result \<Rightarrow> execution_result" where
  "run_process proc timeout capture_output stream_output result =
     (let (result, returncode) =
        (if capture_output \<and> stream_output then
           (if timeout_expired proc timeout then
              (result\<lparr>timed_out := True, errors := errors result @ [timeout_message timeout]\<rparr>,
               None)
            else
              (result\<lparr>stdout := written (stdout_lines proc), stderr := written (stderr_lines proc)\<rparr>,
               Some (status proc)))
         else
           (if timeout_expired proc timeout then
              (let result = result\<lparr>timed_out := True,
                                     errors := errors result @ [timeout_message timeout]\<rparr>
               in if capture_output
                  then result\<lparr>stdout := written_by timeout (stdout_lines proc),
                              stderr := written_by timeout (stderr_lines proc)\<rparr>
                  else result,
               Some (killed_status proc))
            else
              (if capture_output
               then result\<lparr>stdout := written (stdout_lines proc), stderr := written (stderr_lines proc)\<rparr>
               else result,
               Some (status proc))));
        result = result\<lparr>exit_code := returncode\<rparr>
      in result\<lparr>success := (exit_code result = Some 0) \<and> \<not> timed_out result\<rparr>)"

text \<open>
  \<^verbatim>\<open>CodeExecutor.execute\<close>. An exception inside the \<^verbatim>\<open>try\<close> leaves the result
  as it was and appends a message. The log file and the console output are not part of
  the result and are left out.
\<close>

definition execute :: "process \<Rightarrow> int option \<Rightarrow> bool \<Rightarrow> bool \<Rightarrow> execution_result" where
  "execute proc timeout capture_output stream_output =
     (let result = ExecutionResult;
          result =
            (case popen_error proc of
               Some msg \<Rightarrow> result\<lparr>errors := errors result @ [''Execution failed: '' @ msg]\<rparr>
             | None \<Rightarrow> run_process proc timeout capture_output stream_output result);
          result = result\<lparr>errors := errors result @ analyze_errors (stderr result)\<rparr>;
          result = result\<lparr>warnings := warnings result @ analyze_warnings (stderr result)\<rparr>
      in result)"

section \<open>Result cache (cache.py)\<close>

text \<open>
  A payload is JSON-serializable data: a JSON value. \<^verbatim>\<open>json.dump\<close> followed by
  \<^verbatim>\<open>json.load\<close> gives such a value back as it was, so a cache file is modelled by
  the value \<^verbatim>\<open>json.load\<close> reads from it. \<open>JNull\<close> is Python's \<^verbatim>\<open>None\<close>.
\<close>

datatype json =
    JNull
  | JBool bool
  | JInt int
  | JFloat real
  | JString string
  | JArray "json list"
  | JObject "(string \<times> json) list"

text \<open>
  A file of the cache directory: \<open>Entry obj t\<close> is a JSON object with the given
  fields and a \<^verbatim>\<open>cached_at\<close> field that \<^verbatim>\<open>datetime.fromisoformat\<close> reads as the
  time \<open>t\<close>, in microseconds; \<open>Corrupt\<close> is any other file (unreadable, not JSON, no
  readable \<^verbatim>\<open>cached_at\<close>), on which \<^verbatim>\<open>_is_cache_valid\<close> raises and catches an
  exception.
\<close>

datatype cache_file = Corrupt | Entry "(string \<times> json) list" int

datatype cache_dir = Papers | Repositories | Analysis

text \<open>The files of the cache, by directory and file stem.\<close>

type_synonym cache_files = "cache_dir \<times> string \<rightharpoonup> cache_file"

definition timedelta_days :: "int \<Rightarrow> int" where
  "timedelta_days d = d * 24 * 60 * 60 * 1000000"

definition is_cache_valid :: "cache_files \<Rightarrow> int \<Rightarrow> cache_dir \<times> string \<Rightarrow> int \<Rightarrow> bool" where
  "is_cache_valid files now cache_file max_age_days =
     (case files cache_file of
        None \<Rightarrow> False
      | Some Corrupt \<Rightarrow> False
      | Some (Entry obj cached_time) \<Rightarrow>
          (let age = now - cached_time in age < timedelta_days max_age_days))"

text \<open>
  The three getters and the three setters differ in the directory, the maximum age and
  the names of two fields; \<open>cache_get\<close> and \<open>cache_set\<close> are their common body.
  \<open>md5\<close> stands for \<^verbatim>\<open>hashlib.md5(identifier.encode()).hexdigest()\<close>, a library
  function taken as a parameter. A missing payload field is the \<^verbatim>\<open>KeyError\<close> that
  the getter catches. \<open>write_ok\<close> tells whether writing the file succeeds; when it
  does not, the setter logs a warning and the files stay as they were.
\<close>

fun max_age_days :: "cache_dir \<Rightarrow> int" where
  "max_age_days Papers = 30"
| "max_age_days Repositories = 7"
| "max_age_days Analysis = 3"

fun payload_field :: "cache_dir \<Rightarrow> string" where
  "payload_field Papers = ''metadata''"
| "payload_field Repositories = ''repo_info''"
| "payload_field Analysis = ''analysis''"

fun identifier_field :: "cache_dir \<Rightarrow> string" where
  "identifier_field Papers = ''paper_id''"
| "identifier_field Repositories = ''repo_url''"
| "identifier_field Analysis = ''repo_url''"

definition cache_get ::
  "(string \<Rightarrow> string) \<Rightarrow> cache_dir \<Rightarrow> cache_files \<Rightarrow> int \<Rightarrow> string \<Rightarrow> json" where
  "cache_get md5 dir files now identifier =
     (let cache_key = md5 identifier;
          cache_file = (dir, cache_key)
      in if is_cache_valid files now cache_file (max_age_days dir) then
           (case files cache_file of
              Some (Entry obj cached_time) \<Rightarrow>
                (case map_of obj (payload_field dir) of
                   Some payload \<Rightarrow> payload
                 | None \<Rightarrow> JNull)
            | _ \<Rightarrow> JNull)
         else JNull)"

definition cache_set ::
  "(string \<Rightarrow> string) \<Rightarrow> cache_dir \<Rightarrow> cache_files \<Rightarrow> int \<Rightarrow> bool \<Rightarrow> string \<Rightarrow> json \<Rightarrow> cache_files" where
  "cache_set md5 dir files now write_ok identifier payload =
     (let cache_key = md5 identifier;
          cache_file = (dir, cache_key)
      in if write_ok then
           files(cache_file \<mapsto>
             Entry [(identifier_field dir, JString identifier), (payload_field dir, payload)] now)
         else files)"

definition get_paper_metadata :: "(string \<Rightarrow> string) \<Rightarrow> cache_files \<Rightarrow> int \<Rightarrow> string \<Rightarrow> json" where
  "get_paper_metadata md5 = cache_get md5 Papers"

definition set_paper_metadata ::
  "(string \<Rightarrow> string) \<Rightarrow> cache_files \<Rightarrow> int \<Rightarrow> bool \<Rightarrow> string \<Rightarrow> json \<Rightarrow> cache_files" where
  "set_paper_metadata md5 = cache_set md5 Papers"

definition get_repository_info :: "(string \<Rightarrow> string) \<Rightarrow> cache_files \<Rightarrow> int \<Rightarrow> string \<Rightarrow> json" where
  "get_repository_info md5 = cache_get md5 Repositories"

definition set_repository_info ::
  "(string \<Rightarrow> string) \<Rightarrow> cache_files \<Rightarrow> int \<Rightarrow> bool \<Rightarrow> string \<Rightarrow> json \<Rightarrow> cache_files" where
  "set_repository_info md5 = cache_set md5 Repositories"

definition get_analysis :: "(string \<Rightarrow> string) \<Rightarrow> cache_files \<Rightarrow> int \<Rightarrow> string \<Rightarrow> json" where
  "get_analysis md5 = cache_get md5 Analysis"

definition set_analysis ::
  "(string \<Rightarrow> string) \<Rightarrow> cache_files \<Rightarrow> int \<Rightarrow> bool \<Rightarrow> string \<Rightarrow> json \<Rightarrow> cache_files" where
  "set_analysis md5 = cache_set md5 Analysis"

text \<open>\<^verbatim>\<open>clear_cache\<close>: every file of the directories the argument selects is removed.\<close>

definition clear_cache :: "cache_files \<Rightarrow> string option \<Rightarrow> cache_files" where
  "clear_cache files cache_type =
     (\<lambda>(dir, stem).
        if (dir = Papers \<and> (cache_type = Some ''papers'' \<or> cache_type = None)) \<or>
           (dir = Repositories \<and> (cache_type = Some ''repositories'' \<or> cache_type = None)) \<or>
           (dir = Analysis \<and> (cache_type = Some ''analysis'' \<or> cache_type = None))
        then None
        else files (dir, stem))"

text \<open>
  The history of a cache: the calls of its setters and of \<^verbatim>\<open>clear_cache\<close>, oldest
  first, applied to a cache directory that starts empty.
\<close>

datatype cache_call =
    SetCall cache_dir int bool string json
  | ClearCall "string option"

fun apply_call :: "(string \<Rightarrow> string) \<Rightarrow> cache_files \<Rightarrow> cache_call \<Rightarrow> cache_files" where
  "apply_call md5 files (SetCall dir now write_ok identifier payload) =
     cache_set md5 dir files now write_ok identifier payload"
| "apply_call md5 files (ClearCall cache_type) = clear_cache files cache_type"

definition cache_after :: "(string \<Rightarrow> string) \<Rightarrow> cache_call list \<Rightarrow> cache_files" where
  "cache_after md5 calls = foldl (apply_call md5) Map.empty calls"

text \<open>A call that sets an identifier with the same cache key in the same directory.\<close>

fun sets_key :: "(string \<Rightarrow> string) \<Rightarrow> cache_dir \<Rightarrow> string \<Rightarrow> cache_call \<Rightarrow> bool" where
  "sets_key md5 dir identifier (SetCall dir' now write_ok identifier' payload) =
     (dir' = dir \<and> md5 identifier' = md5 identifier)"
| "sets_key md5 dir identifier (ClearCall cache_type) = False"

section \<open>Environment provisioner (env\_setup.py)\<close>

text \<open>
  The repository analysis, as far as the provisioner and the orchestrator read it.
  \<^verbatim>\<open>RepositoryAnalyzer.analyze\<close> always sets the top-level keys; the entries
  \<^verbatim>\<open>dependencies['python']\<close> and \<^verbatim>\<open>dependencies['node']\<close> exist only when the
  language was detected (\<open>None\<close>: \<^verbatim>\<open>.get(..., {})\<close> gives the empty dictionary,
  all of whose entries are falsy).
\<close>

record python_deps =
  requirements_files :: "string list"
  setup_py :: bool
  conda_env :: bool
  conda_files :: "string list"

record node_deps =
  package_json :: bool

record entry_point =
  ep_file :: string
  ep_command :: string

record analysis =
  languages :: "string list"
  python :: "python_deps option"
  node :: "node_deps option"
  entry_points :: "entry_point list"
  docker_support :: bool
  container_files :: "string list"

text \<open>
  What \<^verbatim>\<open>subprocess.run\<close> does on the host for one command: it returns with a return
  code and the captured stderr, or raises \<^verbatim>\<open>FileNotFoundError\<close> (no such executable),
  \<^verbatim>\<open>TimeoutExpired\<close>, or another exception; each exception carries its text.
\<close>

datatype host_result =
    Returned int string
  | NotFound string
  | Expired string
  | Other string

datatype subprocess_error =
    CalledProcessError int string
  | FileNotFoundError string
  | TimeoutExpired string
  | OtherError string

text \<open>
  \<^verbatim>\<open>subprocess.run(..., check=check)\<close>: with \<^verbatim>\<open>check=True\<close> a non-zero return code
  is a \<^verbatim>\<open>CalledProcessError\<close>.
\<close>

definition run :: "bool \<Rightarrow> host_result \<Rightarrow> subprocess_error + int \<times> string" where
  "run check r =
     (case r of
        Returned returncode err \<Rightarrow>
          if check \<and> returncode \<noteq> 0 then Inl (CalledProcessError returncode err)
          else Inr (returncode, err)
      | NotFound msg \<Rightarrow> Inl (FileNotFoundError msg)
      | Expired msg \<Rightarrow> Inl (TimeoutExpired msg)
      | Other msg \<Rightarrow> Inl (OtherError msg))"

text \<open>\<^verbatim>\<open>str(e)\<close>; the command inside the text of a \<^verbatim>\<open>CalledProcessError\<close> is left out.\<close>

fun exc_text :: "subprocess_error \<Rightarrow> string" where
  "exc_text (CalledProcessError returncode err) =
     ''Command returned non-zero exit status '' @ str_of_int returncode @ ''.''"
| "exc_text (FileNotFoundError msg) = msg"
| "exc_text (TimeoutExpired msg) = msg"
| "exc_text (OtherError msg) = msg"

text \<open>
  The host: the outcome of every command the provisioner runs, and which paths of the
  repository exist.
\<close>

record host =
  docker_version :: host_result
  docker_build :: "string \<Rightarrow> host_result"
  conda_version :: host_result
  conda_env_create :: "string \<Rightarrow> host_result"
  conda_create :: host_result
  conda_pip_install :: "string \<Rightarrow> host_result"
  venv_create :: host_result
  pip_upgrade :: host_result
  pip_install_requirements :: "string \<Rightarrow> host_result"
  pip_install_editable :: host_result
  npm_version :: host_result
  npm_install :: host_result
  path_exists :: "string \<Rightarrow> bool"

text \<open>
  The environment descriptor: the dictionary a strategy returns, with its
  \<^verbatim>\<open>type\<close>, \<^verbatim>\<open>success\<close> and \<^verbatim>\<open>errors\<close>, and the \<^verbatim>\<open>environments\<close> of a
  \<^verbatim>\<open>multi\<close> descriptor. A \<^verbatim>\<open>multi\<close> descriptor has no \<^verbatim>\<open>errors\<close> key; its
  callers read it with \<^verbatim>\<open>.get('errors')\<close>, so the empty list stands for the missing
  key. The locators (\<^verbatim>\<open>path\<close>, \<^verbatim>\<open>image\<close>, \<^verbatim>\<open>activation_command\<close>, ...) are left
  out.
\<close>

datatype env_info =
  EnvInfo (env_type: string) (env_success: bool) (env_errors: "string list")
    (environments: "env_info list")

text \<open>
  The loop over the requirements files of \<^verbatim>\<open>setup_python_venv\<close>: a
  \<^verbatim>\<open>CalledProcessError\<close> is recorded and the loop goes on; any other exception leaves
  the loop (and is caught by the outer handler), with the errors recorded so far.
\<close>

fun install_requirements ::
  "host \<Rightarrow> string list \<Rightarrow> string list \<Rightarrow> string list \<times> subprocess_error option" where
  "install_requirements h [] errs = (errs, None)"
| "install_requirements h (req_file # rest) errs =
     (if path_exists h req_file then
        (case run True (pip_install_requirements h req_file) of
           Inr _ \<Rightarrow> install_requirements h rest errs
         | Inl (CalledProcessError returncode err) \<Rightarrow>
             install_requirements h rest
               (errs @ [''Failed to install from '' @ req_file @ '': '' @ err])
         | Inl e \<Rightarrow> (errs, Some e))
      else install_requirements h rest errs)"

definition install_setup_py :: "host \<Rightarrow> bool \<Rightarrow> string list \<Rightarrow> string list \<times> subprocess_error option" where
  "install_setup_py h has_setup_py errs =
     (if has_setup_py \<and> path_exists h ''setup.py'' then
        (case run True (pip_install_editable h) of
           Inr _ \<Rightarrow> (errs, None)
         | Inl (CalledProcessError returncode err) \<Rightarrow>
             (errs @ [''Failed to install from setup.py: '' @ err], None)
         | Inl e \<Rightarrow> (errs, Some e))
      else (errs, None))"

definition setup_python_venv :: "host \<Rightarrow> analysis \<Rightarrow> env_info" where
  "setup_python_venv h a =
     (let failed = (\<lambda>errs e.
            EnvInfo ''python_venv'' False
              (errs @ [''Failed to setup Python environment: '' @ exc_text e]) [])
      in case run True (venv_create h) of
           Inl e \<Rightarrow> failed [] e
         | Inr _ \<Rightarrow>
             (case run True (pip_upgrade h) of
                Inl e \<Rightarrow> failed [] e
              | Inr _ \<Rightarrow>
                  (let reqs = (case python a of None \<Rightarrow> [] | Some deps \<Rightarrow> requirements_files deps);
                       has_setup_py = (case python a of None \<Rightarrow> False | Some deps \<Rightarrow> setup_py deps)
                   in case install_requirements h reqs [] of
                        (errs, Some e) \<Rightarrow> failed errs e
                      | (errs, None) \<Rightarrow>
                          (case install_setup_py h has_setup_py errs of
                             (errs, Some e) \<Rightarrow> failed errs e
                           | (errs, None) \<Rightarrow> EnvInfo ''python_venv'' True errs []))))"

text \<open>
  In \<^verbatim>\<open>setup_conda_env\<close> every exception ends the strategy: the first failing
  command decides the error.
\<close>

fun conda_pip_installs :: "host \<Rightarrow> string list \<Rightarrow> subprocess_error option" where
  "conda_pip_installs h [] = None"
| "conda_pip_installs h (req_file # rest) =
     (if path_exists h req_file then
        (case run True (conda_pip_install h req_file) of
           Inr _ \<Rightarrow> conda_pip_installs h rest
         | Inl e \<Rightarrow> Some e)
      else conda_pip_installs h rest)"

definition setup_conda_env :: "host \<Rightarrow> analysis \<Rightarrow> env_info" where
  "setup_conda_env h a =
     (let failed = (\<lambda>e.
            EnvInfo ''conda'' False
              [case e of
                 FileNotFoundError msg \<Rightarrow> ''Conda is not installed or not in PATH''
               | _ \<Rightarrow> ''Failed to setup Conda environment: '' @ exc_text e] [])
      in case run True (conda_version h) of
           Inl e \<Rightarrow> failed e
         | Inr _ \<Rightarrow>
             (let has_conda_env = (case python a of None \<Rightarrow> False | Some deps \<Rightarrow> conda_env deps);
                  files = (case python a of None \<Rightarrow> [] | Some deps \<Rightarrow> conda_files deps);
                  reqs = (case python a of None \<Rightarrow> [] | Some deps \<Rightarrow> requirements_files deps)
              in case (if has_conda_env then files else []) of
                   env_file # _ \<Rightarrow>
                     (case run True (conda_env_create h env_file) of
                        Inl e \<Rightarrow> failed e
                      | Inr _ \<Rightarrow> EnvInfo ''conda'' True [] [])
                 | [] \<Rightarrow>
                     (case run True (conda_create h) of
                        Inl e \<Rightarrow> failed e
                      | Inr _ \<Rightarrow>
                          (case conda_pip_installs h reqs of
                             Some e \<Rightarrow> failed e
                           | None \<Rightarrow> EnvInfo ''conda'' True [] []))))"

text \<open>
  \<^verbatim>\<open>setup_docker_env\<close>. The three \<^verbatim>\<open>except\<close> clauses are \<open>docker_failed\<close>. The
  availability of Docker is checked before the Dockerfile is looked for, and the build
  runs without \<^verbatim>\<open>check\<close>: its return code is read.
\<close>

definition docker_failed :: "subprocess_error \<Rightarrow> env_info" where
  "docker_failed e =
     EnvInfo ''docker'' False
       [case e of
          FileNotFoundError msg \<Rightarrow> ''Docker is not installed or not in PATH''
        | TimeoutExpired msg \<Rightarrow> ''Docker build timed out (30 minutes)''
        | _ \<Rightarrow> ''Failed to setup Docker environment: '' @ exc_text e] []"

definition setup_docker_env :: "host \<Rightarrow> analysis \<Rightarrow> env_info" where
  "setup_docker_env h a =
     (case run True (docker_version h) of
        Inl e \<Rightarrow> docker_failed e
      | Inr _ \<Rightarrow>
          (let dockerfiles = filter (\<lambda>f. contains f ''Dockerfile'') (container_files a)
           in case dockerfiles of
                [] \<Rightarrow> EnvInfo ''docker'' False [''No Dockerfile found''] []
              | dockerfile # _ \<Rightarrow>
                  (case run False (docker_build h dockerfile) of
                     Inl e \<Rightarrow> docker_failed e
                   | Inr (returncode, err) \<Rightarrow>
                       if returncode = 0 then EnvInfo ''docker'' True [] []
                       else EnvInfo ''docker'' False [''Docker build failed: '' @ err] [])))"

definition setup_node_env :: "host \<Rightarrow> analysis \<Rightarrow> env_info" where
  "setup_node_env h a =
     (let failed = (\<lambda>e.
            EnvInfo ''node'' False
              [case e of
                 FileNotFoundError msg \<Rightarrow> ''npm is not installed or not in PATH''
               | _ \<Rightarrow> ''Failed to setup Node.js environment: '' @ exc_text e] [])
      in case run True (npm_version h) of
           Inl e \<Rightarrow> failed e
         | Inr _ \<Rightarrow>
             (if (case node a of None \<Rightarrow> False | Some deps \<Rightarrow> package_json deps) then
                (case run True (npm_install h) of
                   Inl e \<Rightarrow> failed e
                 | Inr _ \<Rightarrow> EnvInfo ''node'' True [] [])
              else EnvInfo ''node'' False [] []))"

text \<open>
  \<^verbatim>\<open>auto_setup\<close>. \<open>language_setups\<close> is the part after the Docker attempt: the list
  \<^verbatim>\<open>results\<close> of the strategies the detected languages imply. A Conda attempt that
  fails is replaced by the venv attempt.
\<close>

definition language_setups :: "host \<Rightarrow> analysis \<Rightarrow> bool \<Rightarrow> env_info list" where
  "language_setups h a prefer_conda =
     (if ''Python'' \<in> set (languages a) then
        (if prefer_conda then
           (let result = setup_conda_env h a
            in if env_success result then [result] else [setup_python_venv h a])
         else [setup_python_venv h a])
      else []) @
     (if \<exists>lang\<in>set [''JavaScript'', ''TypeScript'']. lang \<in> set (languages a)
      then [setup_node_env h a]
      else [])"

definition combined :: "env_info list \<Rightarrow> env_info" where
  "combined results =
     (if results \<noteq> [] then
        EnvInfo ''multi'' (\<exists>r\<in>set results. env_success r) [] results
      else EnvInfo ''none'' False [''No compatible environment setup found''] [])"

definition auto_setup :: "host \<Rightarrow> analysis \<Rightarrow> bool \<Rightarrow> bool \<Rightarrow> env_info" where
  "auto_setup h a prefer_docker prefer_conda =
     (if prefer_docker \<and> docker_support a \<and> env_success (setup_docker_env h a)
      then setup_docker_env h a
      else combined (language_setups h a prefer_conda))"

text \<open>
  A host on which none of the tools is installed, to build example hosts from, and an
  analysis of a repository with a compose file and no Dockerfile, as
  \<^verbatim>\<open>RepositoryAnalyzer.analyze\<close> produces it (\<^verbatim>\<open>docker_support\<close> is set when a
  \<^verbatim>\<open>docker-compose*.yml\<close> exists).
\<close>

definition bare_host :: host where
  "bare_host =
     \<lparr>docker_version = NotFound ''docker'', docker_build = (\<lambda>f. NotFound ''docker''),
      conda_version = NotFound ''conda'', conda_env_create = (\<lambda>f. NotFound ''conda''),
      conda_create = NotFound ''conda'', conda_pip_install = (\<lambda>f. NotFound ''conda''),
      venv_create = NotFound ''python3'', pip_upgrade = NotFound ''pip'',
      pip_install_requirements = (\<lambda>f. NotFound ''pip''), pip_install_editable = NotFound ''pip'',
      npm_version = NotFound ''npm'', npm_install = NotFound ''npm'',
      path_exists = (\<lambda>p. False)\<rparr>"


section \<open>Error diagnoser (error\_diagnosis.py)\<close>

subsection \<open>The regular expressions of the pattern table\<close>










text \<open>
  A backtracking matcher in continuation style: \<open>match_item i k s cap\<close> matches the item
  \<open>i\<close> at the start of \<open>s\<close> and hands the rest of the text to \<open>k\<close>, which matches the
  rest of the pattern. A repetition \<open>Rep c lo greedy\<close> tries the longest run first when
  it is greedy and the shortest first when it is lazy. The result of a match is the text
  of group 1, or \<open>None\<close> when the pattern has no group.
\<close>






subsection \<open>The pattern table and \<^verbatim>\<open>diagnose\<close>\<close>
















section \<open>Pipeline orchestrator (orchestrator.py)\<close>

text \<open>
  \<^verbatim>\<open>self.report\<close>. The empty dictionaries that \<^verbatim>\<open>__init__\<close> puts under
  \<^verbatim>\<open>analysis\<close>, \<^verbatim>\<open>environment\<close> and \<^verbatim>\<open>execution\<close> are \<open>None\<close>.
\<close>

record report =
  rep_paper :: json
  rep_repositories :: "repository list"
  rep_analysis :: "analysis option"
  rep_environment :: "env_info option"
  rep_execution :: "execution_result option"
  rep_ai_insights :: "(string \<times> string) list"
  rep_success :: bool
  rep_timestamp :: "int option"

text \<open>
  The checkpoint file: a JSON object that maps a stage name to its timestamp and
  data (\<open>stages\<close>, the keys other than \<^verbatim>\<open>last_stage\<close>), with the name of the last
  stage saved under the key \<^verbatim>\<open>last_stage\<close>. The file is absent, unreadable (it cannot
  be opened or is not JSON), holds JSON that is not an object, or holds such an object.
\<close>

record checkpoint =
  stages :: "(string \<times> int \<times> json) list"
  last_stage :: "string option"

datatype file_content = NoFile | Unreadable | NotAnObject | Saved checkpoint

text \<open>
  The orchestrator and what a run leaves outside it: the report, the name of the session
  directory below the working directory and the path of its checkpoint file
  (\<^verbatim>\<open>self.session_dir\<close> and \<^verbatim>\<open>self.checkpoint_file\<close>, \<open>None\<close> before the first
  run), what the checkpoint file of the session directory of the run holds, every content
  written to \<^verbatim>\<open>report.json\<close> (oldest first), the console lines that tell the outcome
  of the run (the halting messages and the final summary, without their markup; progress
  lines are left out, and printing is taken to succeed), and whether an exception left
  the run.
\<close>

record orchestrator =
  report :: report
  session_dir :: "string option"
  checkpoint_file :: "string option"
  checkpoint_json :: file_content
  report_json :: "report list"
  console :: "string list"
  crashed :: bool

definition new_orchestrator :: orchestrator where
  "new_orchestrator =
     \<lparr>report =
        \<lparr>rep_paper = JObject [], rep_repositories = [], rep_analysis = None,
         rep_environment = None, rep_execution = None, rep_ai_insights = [],
         rep_success = False, rep_timestamp = None\<rparr>,
      session_dir = None, checkpoint_file = None, checkpoint_json = NoFile, report_json = [],
      console = [], crashed = False\<rparr>"

text \<open>
  What the interactive session returns (\<^verbatim>\<open>session.user_config\<close> after
  \<^verbatim>\<open>gather_requirements\<close>), and the AI agent's three answers (\<open>None\<close>: the call
  raised, which the orchestrator catches).
\<close>

record user_config =
  env_type_choice :: "string option"
  run_command :: "string option"
  entry_point_choice :: "entry_point option"
  timeout_minutes :: "int option"

record ai_agent =
  explain_paper :: "string option"
  suggest_parameters :: "string option"
  debug_error :: "string option"

text \<open>
  Everything a run reads from outside: the clock (\<open>stamp\<close> is the time of the start
  as \<^verbatim>\<open>strftime\<close> prints it in the name of the session directory), the
  collaborators' results, the user's answers, the host, what each command does when it is
  executed, whether \<^verbatim>\<open>mkdir\<close> succeeds for the session directory and for its
  \<^verbatim>\<open>envs\<close> and \<^verbatim>\<open>logs\<close> directories (an \<^verbatim>\<open>OSError\<close> of \<^verbatim>\<open>mkdir\<close> is not
  caught), and whether the two files of the session directory can be written.
\<close>

record run_env =
  started_at :: int
  stamp :: string
  session_dir_ok :: bool
  envs_dir_ok :: bool
  logs_dir_ok :: bool
  checkpoint_at :: int
  agent :: "ai_agent option"
  found_repos :: "repository list"
  user_selected :: "repository option"
  clone_ok :: bool
  repo_analysis :: analysis
  gathered :: user_config
  user_confirms :: bool
  machine :: host
  process_of :: "string \<Rightarrow> process"
  checkpoint_writable :: bool
  report_writable :: bool

text \<open>
  \<^verbatim>\<open>paper_metadata.get('title', 'unknown')[:50].replace(' ', '_')\<close>: the metadata
  must be a dictionary and the title, when the key is there, a string. Any other title
  raises (\<^verbatim>\<open>None[:50]\<close> is a \<^verbatim>\<open>TypeError\<close>, and \<^verbatim>\<open>PaperIngestion\<close> leaves the
  title \<^verbatim>\<open>None\<close> when it finds none); \<open>None\<close> is that exception.
\<close>

definition paper_name :: "json \<Rightarrow> string option" where
  "paper_name paper_metadata =
     (case paper_metadata of
        JObject obj \<Rightarrow>
          (case map_of obj ''title'' of
             None \<Rightarrow> Some (map (\<lambda>c. if c = CHR '' '' then CHR ''_'' else c) (take 50 ''unknown''))
           | Some (JString title) \<Rightarrow>
               Some (map (\<lambda>c. if c = CHR '' '' then CHR ''_'' else c) (take 50 title))
           | Some _ \<Rightarrow> None)
      | _ \<Rightarrow> None)"

definition say :: "string \<Rightarrow> orchestrator \<Rightarrow> orchestrator" where
  "say line orch = orch\<lparr>console := console orch @ [line]\<rparr>"

definition set_success :: "bool \<Rightarrow> orchestrator \<Rightarrow> orchestrator" where
  "set_success b orch = orch\<lparr>report := (report orch)\<lparr>rep_success := b\<rparr>\<rparr>"

definition add_insight :: "string \<Rightarrow> string option \<Rightarrow> orchestrator \<Rightarrow> orchestrator" where
  "add_insight name answer orch =
     (case answer of
        None \<Rightarrow> orch
      | Some text \<Rightarrow>
          orch\<lparr>report := (report orch)\<lparr>rep_ai_insights :=
                   AList.update name text (rep_ai_insights (report orch))\<rparr>\<rparr>)"

text \<open>
  \<^verbatim>\<open>_save_checkpoint\<close>: nothing is done before the path of the file is set. The
  entries of a readable file are kept (an unreadable file counts as empty), the entry of
  the stage is set, and \<^verbatim>\<open>last_stage\<close> names the stage; the second assignment
  replaces the first when the stage is itself called \<^verbatim>\<open>last_stage\<close>. A file that
  holds JSON other than an object makes the first assignment raise. A failed write is
  logged and leaves the file as it was.
\<close>

definition save_checkpoint :: "run_env \<Rightarrow> string \<Rightarrow> json \<Rightarrow> orchestrator \<Rightarrow> orchestrator" where
  "save_checkpoint env stage data orch =
     (if checkpoint_file orch = None then orch
      else if checkpoint_json orch = NotAnObject then orch\<lparr>crashed := True\<rparr>
      else
        (let old = (case checkpoint_json orch of
                      Saved c \<Rightarrow> stages c
                    | _ \<Rightarrow> []);
             new = \<lparr>stages = (if stage = ''last_stage'' then old
                              else AList.update stage (checkpoint_at env, data) old),
                    last_stage = Some stage\<rparr>
         in if checkpoint_writable env then orch\<lparr>checkpoint_json := Saved new\<rparr> else orch))"

text \<open>\<^verbatim>\<open>_save_report\<close>: a failed write is logged.\<close>

definition save_report :: "run_env \<Rightarrow> orchestrator \<Rightarrow> orchestrator" where
  "save_report env orch =
     (if report_writable env then orch\<lparr>report_json := report_json orch @ [report orch]\<rparr>
      else orch)"

text \<open>
  Steps 4 to 6 of \<^verbatim>\<open>_reproduce_from_metadata\<close>, from the set-up of the environment
  on. When it is not interactive, \<^verbatim>\<open>user_config\<close> is the empty dictionary. The
  constructors of \<^verbatim>\<open>EnvironmentSetup\<close> and of \<^verbatim>\<open>CodeExecutor\<close> create the
  \<^verbatim>\<open>envs\<close> and the \<^verbatim>\<open>logs\<close> directory; a failing \<^verbatim>\<open>mkdir\<close> leaves the run as
  an exception.
\<close>

definition choose_environment :: "run_env \<Rightarrow> bool \<Rightarrow> analysis \<Rightarrow> env_info" where
  "choose_environment env interactive a =
     (let env_type =
            (case (if interactive then env_type_choice (gathered env) else None) of
               None \<Rightarrow> ''auto''
             | Some t \<Rightarrow> if t = [] then ''auto'' else t)
      in if env_type = ''docker'' \<or> (env_type = ''auto'' \<and> docker_support a)
         then setup_docker_env (machine env) a
         else if env_type = ''conda'' then setup_conda_env (machine env) a
         else if env_type = ''venv'' then setup_python_venv (machine env) a
         else auto_setup (machine env) a True False)"

definition choose_command :: "run_env \<Rightarrow> bool \<Rightarrow> analysis \<Rightarrow> string option" where
  "choose_command env interactive a =
     (let run_command = (case (if interactive then run_command (gathered env) else None) of
                           None \<Rightarrow> None
                         | Some c \<Rightarrow> if c = [] then None else Some c)
      in case run_command of
           Some c \<Rightarrow> Some c
         | None \<Rightarrow>
             (case (if interactive then entry_point_choice (gathered env) else None) of
                Some ep \<Rightarrow> Some (ep_command ep)
              | None \<Rightarrow>
                  (case entry_points a of
                     ep # _ \<Rightarrow> Some (ep_command ep)
                   | [] \<Rightarrow> None)))"

definition exec_timeout :: "run_env \<Rightarrow> bool \<Rightarrow> int option \<Rightarrow> int" where
  "exec_timeout env interactive timeout =
     (let minutes = (case (if interactive then timeout_minutes (gathered env) else None) of
                       None \<Rightarrow> 30
                     | Some m \<Rightarrow> m)
      in case timeout of
           None \<Rightarrow> minutes * 60
         | Some t \<Rightarrow> if t = 0 then minutes * 60 else t)"

definition run_steps_4_to_6 ::
  "run_env \<Rightarrow> bool \<Rightarrow> int option \<Rightarrow> analysis \<Rightarrow> orchestrator \<Rightarrow> orchestrator" where
  "run_steps_4_to_6 env interactive timeout a orch =
     (if \<not> envs_dir_ok env then orch\<lparr>crashed := True\<rparr>
      else
        (let env_info = choose_environment env interactive a;
             orch = orch\<lparr>report := (report orch)\<lparr>rep_environment := Some env_info\<rparr>\<rparr>
         in if \<not> env_success env_info then
              say ''Environment setup failed'' orch
            else if \<not> logs_dir_ok env then orch\<lparr>crashed := True\<rparr>
            else
              (case choose_command env interactive a of
                 None \<Rightarrow> say ''No clear entry point found'' orch
               | Some command \<Rightarrow>
                   (let result = execute (process_of env command)
                                   (Some (exec_timeout env interactive timeout)) True True;
                        orch = orch\<lparr>report := (report orch)\<lparr>rep_execution := Some result,
                                                              rep_success := success result\<rparr>\<rparr>;
                        orch = (case agent env of
                                  Some ai \<Rightarrow>
                                    if \<not> success result
                                    then add_insight ''error_analysis'' (debug_error ai) orch
                                    else orch
                                | None \<Rightarrow> orch);
                        orch = save_report env orch;
                        orch = say (if rep_success (report orch)
                                    then ''Reproduction completed successfully!''
                                    else ''Reproduction failed'') orch
                    in say ''Report saved to: report.json'' orch))))"

text \<open>
  Steps 2 and 3, from the clone on, for the selected repository.
\<close>

definition run_steps_2_to_6 ::
  "run_env \<Rightarrow> bool \<Rightarrow> int option \<Rightarrow> orchestrator \<Rightarrow> orchestrator" where
  "run_steps_2_to_6 env interactive timeout orch =
     (if \<not> clone_ok env then
        say ''Failed to clone repository'' (set_success False orch)
      else
        (let a = repo_analysis env;
             orch = orch\<lparr>report := (report orch)\<lparr>rep_analysis := Some a\<rparr>\<rparr>;
             orch = (case agent env of
                       Some ai \<Rightarrow> add_insight ''parameter_suggestions'' (suggest_parameters ai) orch
                     | None \<Rightarrow> orch)
         in if interactive \<and> \<not> user_confirms env then
              say ''Reproduction cancelled by user'' orch
            else run_steps_4_to_6 env interactive timeout a orch))"

text \<open>
  \<^verbatim>\<open>_reproduce_from_metadata\<close>. The session directory is named after the paper and
  the time and is created first; the run ends there with an exception when the title is
  not a string or \<^verbatim>\<open>mkdir\<close> fails. The only call of \<^verbatim>\<open>_save_checkpoint\<close> is the
  one that follows; its exception ends the run as well. Without the interactive session the repository is the one
  \<^verbatim>\<open>get_official_repository\<close> selects; were there none, the subscript
  \<^verbatim>\<open>selected_repo['url']\<close> would raise.
\<close>

definition reproduce_from_metadata ::
  "run_env \<Rightarrow> json \<Rightarrow> bool \<Rightarrow> int option \<Rightarrow> orchestrator \<Rightarrow> orchestrator" where
  "reproduce_from_metadata env paper_metadata interactive timeout orch =
     (let orch = orch\<lparr>report := (report orch)\<lparr>rep_timestamp := Some (started_at env)\<rparr>\<rparr>
      in case paper_name paper_metadata of
           None \<Rightarrow> orch\<lparr>crashed := True\<rparr>
         | Some name \<Rightarrow>
             (let orch = orch\<lparr>session_dir := Some (name @ ''_'' @ stamp env)\<rparr>
              in if \<not> session_dir_ok env then orch\<lparr>crashed := True\<rparr>
                 else if checkpoint_json orch = NotAnObject then
                   save_checkpoint env ''initialized'' (JObject [(''paper'', paper_metadata)])
                     (orch\<lparr>checkpoint_file :=
                             Some (name @ ''_'' @ stamp env @ ''/.checkpoint.json'')\<rparr>)
                 else
                   (let orch = orch\<lparr>checkpoint_file :=
                                       Some (name @ ''_'' @ stamp env @ ''/.checkpoint.json'')\<rparr>;
                        orch = save_checkpoint env ''initialized''
                                 (JObject [(''paper'', paper_metadata)]) orch;
                        orch = (case agent env of
                                  Some ai \<Rightarrow>
                                    add_insight ''paper_explanation'' (explain_paper ai) orch
                                | None \<Rightarrow> orch);
                        repos = found_repos env
                    in if repos = [] then
                         say ''No repositories found'' (set_success False orch)
                       else
                         (let orch = orch\<lparr>report := (report orch)\<lparr>rep_repositories := repos\<rparr>\<rparr>
                          in if interactive then
                               (case user_selected env of
                                  None \<Rightarrow> say ''No repository selected'' orch
                                | Some selected_repo \<Rightarrow>
                                    run_steps_2_to_6 env interactive timeout orch)
                             else
                               (case get_official_repository repos of
                                  None \<Rightarrow> orch\<lparr>crashed := True\<rparr>
                                | Some selected_repo \<Rightarrow>
                                    run_steps_2_to_6 env interactive timeout orch)))))"

text \<open>
  \<^verbatim>\<open>reproduce_from_url\<close>, after the paper has been ingested: the metadata is stored
  in the report and the pipeline runs. (\<^verbatim>\<open>reproduce_from_pdf\<close> and
  \<^verbatim>\<open>reproduce_from_arxiv\<close> print the title in between.)
\<close>

definition reproduce ::
  "run_env \<Rightarrow> json \<Rightarrow> bool \<Rightarrow> int option \<Rightarrow> orchestrator \<Rightarrow> orchestrator" where
  "reproduce env paper_metadata interactive timeout orch =
     reproduce_from_metadata env paper_metadata interactive timeout
       (orch\<lparr>report := (report orch)\<lparr>rep_paper := paper_metadata\<rparr>\<rparr>)"

text \<open>
  A run in which everything goes well: one candidate, found on Papers with Code; a Python
  repository with \<^verbatim>\<open>main.py\<close> as its entry point and no container files; a host with
  Python; a command that exits with code 0 after a second; no AI agent.
\<close>

definition example_env :: run_env where
  "example_env =
     \<lparr>started_at = 0, stamp = ''20240101_000000'', session_dir_ok = True, envs_dir_ok = True,
      logs_dir_ok = True, checkpoint_at = 0, agent = None,
      found_repos =
        [\<lparr>url = ''https://github.com/a/a'', stars = 10, source = Some ''papers_with_code'',
          is_official = Some True\<rparr>],
      user_selected = None, clone_ok = True,
      repo_analysis =
        \<lparr>languages = [''Python''],
         python = Some \<lparr>requirements_files = [], setup_py = False, conda_env = False,
                         conda_files = []\<rparr>,
         node = None,
         entry_points = [\<lparr>ep_file = ''main.py'', ep_command = ''python main.py''\<rparr>],
         docker_support = False, container_files = []\<rparr>,
      gathered = \<lparr>env_type_choice = None, run_command = None, entry_point_choice = None,
                  timeout_minutes = None\<rparr>,
      user_confirms = True,
      machine = bare_host\<lparr>venv_create := Returned 0 [], pip_upgrade := Returned 0 []\<rparr>,
      process_of = (\<lambda>command. \<lparr>popen_error = None, runtime = 1, status = 0,
                                  killed_status = - 9, stdout_lines = [], stderr_lines = []\<rparr>),
      checkpoint_writable = True, report_writable = True\<rparr>"

text \<open>
  The state in which step 2 starts, for a paper \<open>p\<close> whose session directory is named
  after \<open>name\<close>: the paper, the timestamp and the candidates are in the report and the
  checkpoint of the start is saved.
\<close>

definition discovered :: "run_env \<Rightarrow> string \<Rightarrow> json \<Rightarrow> orchestrator \<Rightarrow> orchestrator" where
  "discovered env name p orch =
     (let orch = orch\<lparr>report := (report orch)\<lparr>rep_paper := p\<rparr>\<rparr>;
          orch = orch\<lparr>report := (report orch)\<lparr>rep_timestamp := Some (started_at env)\<rparr>\<rparr>;
          orch = orch\<lparr>session_dir := Some (name @ ''_'' @ stamp env)\<rparr>;
          orch = orch\<lparr>checkpoint_file := Some (name @ ''_'' @ stamp env @ ''/.checkpoint.json'')\<rparr>;
          orch = save_checkpoint env ''initialized'' (JObject [(''paper'', p)]) orch;
          orch = (case agent env of
                    Some ai \<Rightarrow> add_insight ''paper_explanation'' (explain_paper ai) orch
                  | None \<Rightarrow> orch)
      in orch\<lparr>report := (report orch)\<lparr>rep_repositories := found_repos env\<rparr>\<rparr>)"

text \<open>
  The state in which step 4 starts: the analysis is in the report, with the AI agent's
  suggestions if there are any.
\<close>

definition analysed :: "run_env \<Rightarrow> orchestrator \<Rightarrow> orchestrator" where
  "analysed env orch =
     (let orch = orch\<lparr>report := (report orch)\<lparr>rep_analysis := Some (repo_analysis env)\<rparr>\<rparr>
      in case agent env of
           Some ai \<Rightarrow> add_insight ''parameter_suggestions'' (suggest_parameters ai) orch
         | None \<Rightarrow> orch)"

section \<open>Properties of the backoff retrier\<close>

lemma wrapper_loop_all_fail:
  assumes "\<forall>k. exceptions (err k)" "0 \<le> b" "0 \<le> max_delay"
  shows "n = nat (max_attempts - attempt) \<Longrightarrow> attempt \<le> max_attempts \<Longrightarrow> 0 \<le> delay \<Longrightarrow>
    wrapper_loop max_attempts max_delay b exceptions (\<lambda>k. Raises (err k)) attempt delay calls slept =
      \<lparr>rr_result = Inl (err (calls + n)), rr_calls = calls + n + 1,
       rr_sleeps = slept @ backoff_delays max_delay b delay n\<rparr>"
proof (induction n arbitrary: attempt delay calls slept)
  case 0
  then have "attempt = max_attempts" by simp
  then show ?case using assms by (subst wrapper_loop.simps) simp
next
  case (Suc n)
  then have lt: "attempt < max_attempts" and n: "n = nat (max_attempts - (attempt + 1))" by auto
  have le: "attempt + 1 \<le> max_attempts" using lt by simp
  have d: "0 \<le> min (delay * b) max_delay" using Suc.prems(3) assms(2,3) by simp
  show ?case
    using assms lt Suc.prems(3) Suc.IH [OF n le d] by (subst wrapper_loop.simps) simp
qed


lemma wrapper_all_fail:
  assumes "\<forall>k. exceptions (err k)" "1 \<le> N" "0 \<le> d0" "0 \<le> dmax" "0 \<le> b"
  shows "wrapper N d0 dmax b exceptions (\<lambda>k. Raises (err k)) =
           \<lparr>rr_result = Inl (err (nat N - 1)), rr_calls = nat N,
            rr_sleeps = backoff_delays dmax b d0 (nat N - 1)\<rparr>"
proof -
  have "wrapper_loop N dmax b exceptions (\<lambda>k. Raises (err k)) 1 d0 0 [] =
          \<lparr>rr_result = Inl (err (0 + (nat N - 1))), rr_calls = 0 + (nat N - 1) + 1,
           rr_sleeps = [] @ backoff_delays dmax b d0 (nat N - 1)\<rparr>"
    by (rule wrapper_loop_all_fail) (use assms in auto)
  moreover have "nat N - 1 + 1 = nat N" using assms by auto
  ultimately show ?thesis by (simp add: wrapper_def)
qed









lemma backoff_delays_length: "length (backoff_delays m b d n) = n"
  by (induction n arbitrary: d) auto

lemma backoff_delays_nth:
  assumes "1 \<le> b" "0 < d" "d \<le> m"
  shows "i < n \<Longrightarrow> backoff_delays m b d n ! i = min (d * b ^ i) m"
  using assms
proof (induction n arbitrary: d i)
  case 0
  then show ?case by simp
next
  case (Suc n)
  show ?case
  proof (cases i)
    case 0
    then show ?thesis using Suc.prems by simp
  next
    case (Suc j)
    let ?d = "min (d * b) m"
    have pos: "0 < ?d" using Suc.prems by (simp add: mult_pos_pos)
    have le: "?d \<le> m" by simp
    have "backoff_delays m b ?d n ! j = min (?d * b ^ j) m"
      using Suc.IH [of j ?d] Suc.prems Suc pos le by simp
    also have "\<dots> = min (d * b ^ Suc j) m"
    proof (cases "d * b \<le> m")
      case True
      then show ?thesis by (simp add: mult.assoc)
    next
      case False
      have bj: "1 \<le> b ^ j" using Suc.prems by simp
      have mpos: "0 < m" using Suc.prems by simp
      have "m * 1 \<le> m * b ^ j" using bj mpos by (intro mult_left_mono) simp_all
      then have m1: "m \<le> m * b ^ j" by simp
      have dbpos: "0 < d * b" using Suc.prems by (simp add: mult_pos_pos)
      have "m \<le> d * b" using False by simp
      also have "d * b * 1 \<le> d * b * b ^ j" using bj dbpos by (intro mult_left_mono) simp_all
      finally have "m \<le> d * b ^ Suc j" by (simp add: mult.assoc)
      then show ?thesis using False m1 by simp
    qed
    finally show ?thesis using Suc by simp
  qed
qed

text \<open>
  What holds of the decorator's delays when the base delay does not exceed the maximum
  delay: before retry \<open>k\<close> (after the \<open>k\<close>-th failed attempt, \<open>1 \<le> k < N\<close>) it sleeps
  \<open>min (d0 * b ^ (k - 1)) dmax\<close>, and the delays never decrease.
\<close>

lemma wrapper_delay_formula:
  fixes err :: "nat \<Rightarrow> exn"
  assumes "\<forall>k. exceptions (err k)" "0 < d0" "d0 \<le> dmax" "1 < b" "1 \<le> k" "int k < N"
  shows "rr_sleeps (wrapper N d0 dmax b exceptions (\<lambda>k. Raises (err k)) :: 'a retry_run) ! (k - 1) =
           min (d0 * b ^ (k - 1)) dmax"
proof -
  have N: "1 \<le> N" using assms by simp
  have "wrapper N d0 dmax b exceptions (\<lambda>k. Raises (err k)) =
          \<lparr>rr_result = (Inl (err (nat N - 1)) :: exn + 'a option), rr_calls = nat N,
           rr_sleeps = backoff_delays dmax b d0 (nat N - 1)\<rparr>"
    using assms N by (simp add: wrapper_all_fail)
  moreover have "k - 1 < nat N - 1" using assms by auto
  ultimately show ?thesis using backoff_delays_nth [of b d0 dmax "k - 1" "nat N - 1"] assms by simp
qed

lemma backoff_delays_mono:
  assumes "1 \<le> b" "0 < d" "d \<le> m" "i \<le> j" "j < n"
  shows "backoff_delays m b d n ! i \<le> backoff_delays m b d n ! j"
proof -
  have "b ^ i \<le> b ^ j" using assms by (simp add: power_increasing)
  then have "d * b ^ i \<le> d * b ^ j" using assms by (simp add: mult_left_mono)
  then have "min (d * b ^ i) m \<le> min (d * b ^ j) m" by (simp add: min_le_iff_disj)
  then show ?thesis using assms backoff_delays_nth [of b d m] by simp
qed

lemma wrapper_delays_mono:
  fixes err :: "nat \<Rightarrow> exn"
  assumes "\<forall>k. exceptions (err k)" "0 < d0" "d0 \<le> dmax" "1 < b" "1 \<le> j" "j \<le> k" "int k < N"
  shows "rr_sleeps (wrapper N d0 dmax b exceptions (\<lambda>k. Raises (err k)) :: 'a retry_run) ! (j - 1) \<le>
         rr_sleeps (wrapper N d0 dmax b exceptions (\<lambda>k. Raises (err k)) :: 'a retry_run) ! (k - 1)"
proof -
  have N: "1 \<le> N" using assms by simp
  have "wrapper N d0 dmax b exceptions (\<lambda>k. Raises (err k)) =
          \<lparr>rr_result = (Inl (err (nat N - 1)) :: exn + 'a option), rr_calls = nat N,
           rr_sleeps = backoff_delays dmax b d0 (nat N - 1)\<rparr>"
    using assms N by (simp add: wrapper_all_fail)
  moreover have "j - 1 \<le> k - 1" "k - 1 < nat N - 1" using assms by auto
  ultimately show ?thesis using backoff_delays_mono [of b d0 dmax "j - 1" "k - 1" "nat N - 1"] assms
    by simp
qed

text \<open>
  C1. The claim fails where the base delay exceeds the maximum delay: the first delay is
  the base delay itself, uncapped. With \<open>max_attempts = 3\<close>, \<open>base_delay = 2\<close>,
  \<open>max_delay = 1\<close> and \<open>exponential_base = 2\<close> the decorator sleeps 2 seconds before
  the first retry, where \<open>min (2 * 2 ^ 0) 1 = 1\<close>, and then 1 second: the delays decrease.
\<close>

theorem wrapper_first_delay_uncapped:
  "rr_sleeps (wrapper 3 2 1 2 (\<lambda>e. True) (\<lambda>k. Raises Timeout) :: unit retry_run) = [2, 1] \<and>
   min (2 * 2 ^ (1 - 1)) 1 = (1 :: real)"
proof -
  have "wrapper 3 2 1 2 (\<lambda>e. True) (\<lambda>k. Raises Timeout) =
          \<lparr>rr_result = (Inl Timeout :: exn + unit option), rr_calls = nat 3,
           rr_sleeps = backoff_delays 1 2 2 (nat 3 - 1)\<rparr>"
    by (rule wrapper_all_fail) simp_all
  moreover have "nat 3 - 1 = (2::nat)" by simp
  moreover have "backoff_delays 1 2 2 2 = [2, 1]"
    by (simp add: numeral_2_eq_2)
  ultimately show ?thesis by simp
qed

section \<open>Properties of candidate selection\<close>

lemma filter_first_index:
  assumes "filter P xs = y # ys"
  shows "\<exists>i<length xs. xs ! i = y \<and> P (xs ! i) \<and> (\<forall>j<i. \<not> P (xs ! j))"
proof -
  from assms obtain us vs where xs: "xs = us @ y # vs" and no: "\<forall>u\<in>set us. \<not> P u" and py: "P y"
    by (auto simp: filter_eq_Cons_iff)
  have "length us < length xs" using xs by simp
  moreover have "xs ! length us = y" using xs by simp
  moreover have "\<forall>j<length us. \<not> P (xs ! j)" using xs no by (simp add: nth_append)
  ultimately show ?thesis using py by blast
qed

lemma selection_order:
  assumes "repos \<noteq> []"
  shows "\<exists>i<length repos. get_official_repository repos = Some (repos ! i) \<and>
           (if \<exists>r\<in>set repos. marked_official r
            then marked_official (repos ! i) \<and> (\<forall>j<i. \<not> marked_official (repos ! j))
            else if \<exists>r\<in>set repos. from_paper_text r
            then from_paper_text (repos ! i) \<and> (\<forall>j<i. \<not> from_paper_text (repos ! j))
            else i = 0)"
proof -
  from assms obtain first rest where repos: "repos = first # rest" by (cases repos) auto
  show ?thesis
  proof (cases "filter marked_official repos")
    case (Cons y ys)
    then have ex: "\<exists>r\<in>set repos. marked_official r"
      by (metis filter_empty_conv list.distinct(1))
    from filter_first_index [OF Cons] obtain i where
      "i < length repos" "repos ! i = y" "marked_official (repos ! i)"
      "\<forall>j<i. \<not> marked_official (repos ! j)"
      by blast
    moreover have "get_official_repository repos = Some y"
      using Cons repos by (simp add: get_official_repository_def)
    ultimately show ?thesis using ex by auto
  next
    case Nil
    then have nex: "\<not> (\<exists>r\<in>set repos. marked_official r)" by (simp add: filter_empty_conv)
    show ?thesis
    proof (cases "filter from_paper_text repos")
      case (Cons y ys)
      then have ex: "\<exists>r\<in>set repos. from_paper_text r"
        by (metis filter_empty_conv list.distinct(1))
      from filter_first_index [OF Cons] obtain i where
        "i < length repos" "repos ! i = y" "from_paper_text (repos ! i)"
        "\<forall>j<i. \<not> from_paper_text (repos ! j)"
        by blast
      moreover have "get_official_repository repos = Some y"
        using Nil Cons repos by (simp add: get_official_repository_def)
      ultimately show ?thesis using nex ex by auto
    next
      case Nil2: Nil
      then have nex2: "\<not> (\<exists>r\<in>set repos. from_paper_text r)" by (simp add: filter_empty_conv)
      have "0 < length repos" using assms by simp
      moreover have "get_official_repository repos = Some (repos ! 0)"
        using Nil Nil2 repos by (simp add: get_official_repository_def)
      ultimately show ?thesis using nex nex2 by auto
    qed
  qed
qed

text \<open>
  C8. For a non-empty candidate list the selected candidate is the first one marked
  official if there is one; else the first one whose source is the paper's text if there
  is one; else the first candidate of the list. In particular, of three candidates of
  which only the second is marked official, the second is selected, whatever the star
  counts are.
\<close>

theorem selection_prefers_official:
  assumes "repos \<noteq> []"
  shows "(\<exists>i<length repos. get_official_repository repos = Some (repos ! i) \<and>
           (if \<exists>r\<in>set repos. marked_official r
            then marked_official (repos ! i) \<and> (\<forall>j<i. \<not> marked_official (repos ! j))
            else if \<exists>r\<in>set repos. from_paper_text r
            then from_paper_text (repos ! i) \<and> (\<forall>j<i. \<not> from_paper_text (repos ! j))
            else i = 0)) \<and>
         (\<not> marked_official a \<and> marked_official b \<and> \<not> marked_official c \<longrightarrow>
            get_official_repository [a, b, c] = Some b)"
proof -
  have "\<not> marked_official a \<and> marked_official b \<and> \<not> marked_official c \<longrightarrow>
          get_official_repository [a, b, c] = Some b"
    by (simp add: get_official_repository_def)
  then show ?thesis using selection_order [OF assms] by blast
qed

text \<open>
  Witness for C8: the second of three candidates is the official one and has the fewest
  stars; the first comes from the paper's text and has the most.
\<close>

theorem selection_prefers_official_witness:
  "get_official_repository
     [\<lparr>url = ''https://github.com/a/a'', stars = 900, source = Some ''paper_text'', is_official = None\<rparr>,
      \<lparr>url = ''https://github.com/b/b'', stars = 3, source = Some ''papers_with_code'', is_official = Some True\<rparr>,
      \<lparr>url = ''https://github.com/c/c'', stars = 40, source = Some ''papers_with_code'', is_official = Some False\<rparr>]
   = Some \<lparr>url = ''https://github.com/b/b'', stars = 3, source = Some ''papers_with_code'', is_official = Some True\<rparr>"
  using selection_prefers_official
    [of "[\<lparr>url = ''https://github.com/a/a'', stars = 900, source = Some ''paper_text'', is_official = None\<rparr>,
          \<lparr>url = ''https://github.com/b/b'', stars = 3, source = Some ''papers_with_code'', is_official = Some True\<rparr>,
          \<lparr>url = ''https://github.com/c/c'', stars = 40, source = Some ''papers_with_code'', is_official = Some False\<rparr>]"
        "\<lparr>url = ''https://github.com/a/a'', stars = 900, source = Some ''paper_text'', is_official = None\<rparr>"
        "\<lparr>url = ''https://github.com/b/b'', stars = 3, source = Some ''papers_with_code'', is_official = Some True\<rparr>"
        "\<lparr>url = ''https://github.com/c/c'', stars = 40, source = Some ''papers_with_code'', is_official = Some False\<rparr>"]
  by (simp add: marked_official_def)

section \<open>Properties of the monitored executor\<close>



lemma run_process_expired:
  assumes "timeout_expired proc timeout"
  shows "timed_out (run_process proc timeout co so r)"
    and "\<not> success (run_process proc timeout co so r)"
  using assms by (simp_all add: run_process_def Let_def split: prod.splits)

lemma execute_fields:
  "success (execute proc timeout co so) =
     (case popen_error proc of
        Some msg \<Rightarrow> False
      | None \<Rightarrow> success (run_process proc timeout co so ExecutionResult))"
  "exit_code (execute proc timeout co so) =
     (case popen_error proc of
        Some msg \<Rightarrow> None
      | None \<Rightarrow> exit_code (run_process proc timeout co so ExecutionResult))"
  "timed_out (execute proc timeout co so) =
     (case popen_error proc of
        Some msg \<Rightarrow> False
      | None \<Rightarrow> timed_out (run_process proc timeout co so ExecutionResult))"
  by (simp_all add: execute_def Let_def ExecutionResult_def split: option.splits)



text \<open>
  The part of C7 that holds on every path: a process that is still running when the
  timeout expires gives \<open>timed_out\<close> and no success, whatever its return codes are.
\<close>

lemma execute_timeout:
  assumes "popen_error proc = None" "timeout_expired proc timeout"
  shows "timed_out (execute proc timeout capture_output stream_output) \<and>
         \<not> success (execute proc timeout capture_output stream_output)"
  using assms by (simp add: execute_fields run_process_expired)

text \<open>
  C7. A command writes \<open>hello\<close> to stdout at once and \<open>oops\<close> to stderr after one
  second, and would run for 100 seconds; the timeout is 5 seconds. With the default
  \<^verbatim>\<open>capture_output=True, stream_output=True\<close> the result has \<open>timed_out\<close> and no
  success, and no exit code, but its \<open>stdout\<close> and \<open>stderr\<close> are empty: the lines the
  reader threads collected before the kill are not stored. The branch without streaming
  stores them.
\<close>

theorem streaming_timeout_loses_output:
  "timed_out (execute \<lparr>popen_error = None, runtime = 100, status = 0, killed_status = - 9,
       stdout_lines = [(0, ''hello'' @ [CHR 0x0A])], stderr_lines = [(1, ''oops'' @ [CHR 0x0A])]\<rparr>
       (Some 5) True True) \<and>
   \<not> success (execute \<lparr>popen_error = None, runtime = 100, status = 0, killed_status = - 9,
       stdout_lines = [(0, ''hello'' @ [CHR 0x0A])], stderr_lines = [(1, ''oops'' @ [CHR 0x0A])]\<rparr>
       (Some 5) True True) \<and>
   exit_code (execute \<lparr>popen_error = None, runtime = 100, status = 0, killed_status = - 9,
       stdout_lines = [(0, ''hello'' @ [CHR 0x0A])], stderr_lines = [(1, ''oops'' @ [CHR 0x0A])]\<rparr>
       (Some 5) True True) = None \<and>
   stdout (execute \<lparr>popen_error = None, runtime = 100, status = 0, killed_status = - 9,
       stdout_lines = [(0, ''hello'' @ [CHR 0x0A])], stderr_lines = [(1, ''oops'' @ [CHR 0x0A])]\<rparr>
       (Some 5) True True) = [] \<and>
   stderr (execute \<lparr>popen_error = None, runtime = 100, status = 0, killed_status = - 9,
       stdout_lines = [(0, ''hello'' @ [CHR 0x0A])], stderr_lines = [(1, ''oops'' @ [CHR 0x0A])]\<rparr>
       (Some 5) True True) = [] \<and>
   written_by (Some 5) [(0, ''hello'' @ [CHR 0x0A])] = ''hello'' @ [CHR 0x0A] \<and>
   stdout (execute \<lparr>popen_error = None, runtime = 100, status = 0, killed_status = - 9,
       stdout_lines = [(0, ''hello'' @ [CHR 0x0A])], stderr_lines = [(1, ''oops'' @ [CHR 0x0A])]\<rparr>
       (Some 5) True False) = ''hello'' @ [CHR 0x0A] \<and>
   stderr (execute \<lparr>popen_error = None, runtime = 100, status = 0, killed_status = - 9,
       stdout_lines = [(0, ''hello'' @ [CHR 0x0A])], stderr_lines = [(1, ''oops'' @ [CHR 0x0A])]\<rparr>
       (Some 5) True False) = ''oops'' @ [CHR 0x0A]"
  by (simp add: execute_def run_process_def ExecutionResult_def Let_def timeout_expired_def
      written_by_def)

section \<open>Properties of the result cache\<close>

lemma cache_get_after_set:
  assumes "now' - now < timedelta_days (max_age_days dir)"
  shows "cache_get digest dir (cache_set digest dir files now True ident payload) now' ident = payload"
  using assms by (cases dir) (simp_all add: cache_get_def cache_set_def is_cache_valid_def Let_def)

lemma cache_get_no_file:
  assumes "files (dir, digest ident) = None"
  shows "cache_get digest dir files now ident = JNull"
  using assms by (simp add: cache_get_def is_cache_valid_def Let_def)

lemma apply_call_keeps_absent:
  assumes "files (dir, digest ident) = None" "\<not> sets_key digest dir ident call"
  shows "apply_call digest files call (dir, digest ident) = None"
  using assms by (cases call) (auto simp: cache_set_def clear_cache_def Let_def)

lemma foldl_calls_keep_absent:
  assumes "files (dir, digest ident) = None" "\<forall>call\<in>set calls. \<not> sets_key digest dir ident call"
  shows "foldl (apply_call digest) files calls (dir, digest ident) = None"
  using assms
proof (induction calls arbitrary: files)
  case Nil
  then show ?case by simp
next
  case (Cons call calls)
  have "apply_call digest files call (dir, digest ident) = None"
    using Cons.prems by (intro apply_call_keeps_absent) simp_all
  then show ?case using Cons by simp
qed

lemma cache_get_expired:
  assumes "files (dir, digest ident) = Some (Entry obj cached_time)"
    and "timedelta_days (max_age_days dir) \<le> now - cached_time"
  shows "cache_get digest dir files now ident = JNull"
  using assms by (simp add: cache_get_def is_cache_valid_def Let_def)

text \<open>
  C3. For each of the three kinds: a set whose write succeeds, followed by a get of the
  same identifier before the kind's maximum age has passed (in particular at once),
  returns the payload as it was set; a get of an identifier that the history of the cache
  never set (no call set this cache key in this directory) returns \<open>None\<close>; a get
  on an entry whose stored timestamp is older than the kind's maximum age returns
  \<open>None\<close>; and the maximum ages are 30, 7 and 3 days.
\<close>

theorem cache_roundtrip_and_expiry:
  "(get_time - set_time < timedelta_days (max_age_days dir) \<longrightarrow>
      cache_get digest dir (cache_set digest dir files set_time True ident payload) get_time ident = payload) \<and>
   ((\<forall>call\<in>set calls. \<not> sets_key digest dir ident call) \<longrightarrow>
      cache_get digest dir (cache_after digest calls) now ident = JNull) \<and>
   (files (dir, digest ident) = Some (Entry obj cached_time) \<and>
    timedelta_days (max_age_days dir) < now - cached_time \<longrightarrow>
      cache_get digest dir files now ident = JNull) \<and>
   get_paper_metadata digest = cache_get digest Papers \<and> max_age_days Papers = 30 \<and>
   get_repository_info digest = cache_get digest Repositories \<and> max_age_days Repositories = 7 \<and>
   get_analysis digest = cache_get digest Analysis \<and> max_age_days Analysis = 3 \<and>
   set_paper_metadata digest = cache_set digest Papers \<and>
   set_repository_info digest = cache_set digest Repositories \<and>
   set_analysis digest = cache_set digest Analysis"
proof -
  have "cache_get digest dir (cache_after digest calls) now ident = JNull"
    if "\<forall>call\<in>set calls. \<not> sets_key digest dir ident call"
    unfolding cache_after_def
    by (rule cache_get_no_file, rule foldl_calls_keep_absent) (use that in simp_all)
  moreover have "cache_get digest dir files now ident = JNull"
    if "files (dir, digest ident) = Some (Entry obj cached_time)"
      "timedelta_days (max_age_days dir) < now - cached_time"
    using that by (simp add: cache_get_def is_cache_valid_def Let_def)
  ultimately show ?thesis
    by (simp add: cache_get_after_set get_paper_metadata_def get_repository_info_def
        get_analysis_def set_paper_metadata_def set_repository_info_def set_analysis_def)
qed

text \<open>
  Witness for C3, with the identity as a stand-in for the digest: paper metadata set and
  read one second later; an identifier never set, after another one was; and an entry
  read 31 days after it was written.
\<close>

theorem cache_roundtrip_and_expiry_witness:
  "cache_get (\<lambda>s. s) Papers
     (cache_set (\<lambda>s. s) Papers Map.empty 0 True ''2301.12345''
        (JObject [(''title'', JString ''A paper'')]))
     1000000 ''2301.12345'' = JObject [(''title'', JString ''A paper'')] \<and>
   cache_get (\<lambda>s. s) Papers
     (cache_after (\<lambda>s. s) [SetCall Papers 0 True ''1706.03762'' (JObject [])])
     1000000 ''2301.12345'' = JNull \<and>
   cache_get (\<lambda>s. s) Papers
     [(Papers, ''2301.12345'') \<mapsto> Entry [(''metadata'', JObject [])] 0]
     (timedelta_days 31) ''2301.12345'' = JNull"
proof -
  note t = cache_roundtrip_and_expiry
    [where digest = "\<lambda>s. s" and get_time = 1000000 and set_time = 0 and now = 1000000 and dir = Papers and files = Map.empty
       and ident = "''2301.12345''" and payload = "JObject [(''title'', JString ''A paper'')]"
       and calls = "[SetCall Papers 0 True ''1706.03762'' (JObject [])]"]
  note u = cache_roundtrip_and_expiry
    [where digest = "\<lambda>s. s" and dir = Papers and ident = "''2301.12345''" and now = "timedelta_days 31"
       and files = "[(Papers, ''2301.12345'') \<mapsto> Entry [(''metadata'', JObject [])] 0]"
       and obj = "[(''metadata'', JObject [])]" and cached_time = 0]
  have a: "cache_get (\<lambda>s. s) Papers
     (cache_set (\<lambda>s. s) Papers Map.empty 0 True ''2301.12345''
        (JObject [(''title'', JString ''A paper'')]))
     1000000 ''2301.12345'' = JObject [(''title'', JString ''A paper'')]"
    using t by (simp add: timedelta_days_def)
  have b: "cache_get (\<lambda>s. s) Papers
     (cache_after (\<lambda>s. s) [SetCall Papers 0 True ''1706.03762'' (JObject [])])
     1000000 ''2301.12345'' = JNull"
    using t by simp
  have c: "cache_get (\<lambda>s. s) Papers
     [(Papers, ''2301.12345'') \<mapsto> Entry [(''metadata'', JObject [])] 0]
     (timedelta_days 31) ''2301.12345'' = JNull"
    using u by (simp add: timedelta_days_def)
  show ?thesis using a b c by blast
qed

section \<open>Properties of the environment provisioner\<close>

lemma run_checked_ok: "(\<exists>x. run True r = Inr x) = (\<exists>err. r = Returned 0 err)"
  by (cases r) (auto simp: run_def)









section \<open>Properties of the error diagnoser\<close>



































section \<open>Properties of the pipeline orchestrator\<close>

lemma say_fields [simp]:
  "report (say l orch) = report orch"
  "checkpoint_json (say l orch) = checkpoint_json orch"
  "report_json (say l orch) = report_json orch"
  "console (say l orch) = console orch @ [l]"
  "crashed (say l orch) = crashed orch"
  by (simp_all add: say_def)

lemma set_success_fields [simp]:
  "rep_success (report (set_success b orch)) = b"
  "checkpoint_json (set_success b orch) = checkpoint_json orch"
  "report_json (set_success b orch) = report_json orch"
  "console (set_success b orch) = console orch"
  "crashed (set_success b orch) = crashed orch"
  by (simp_all add: set_success_def)

lemma add_insight_fields [simp]:
  "rep_success (report (add_insight n a orch)) = rep_success (report orch)"
  "rep_environment (report (add_insight n a orch)) = rep_environment (report orch)"
  "rep_execution (report (add_insight n a orch)) = rep_execution (report orch)"
  "checkpoint_json (add_insight n a orch) = checkpoint_json orch"
  "report_json (add_insight n a orch) = report_json orch"
  "console (add_insight n a orch) = console orch"
  "crashed (add_insight n a orch) = crashed orch"
  by (simp_all add: add_insight_def split: option.splits)

lemma save_report_fields [simp]:
  "report (save_report env orch) = report orch"
  "checkpoint_json (save_report env orch) = checkpoint_json orch"
  "report_json (save_report env orch) =
     (if report_writable env then report_json orch @ [report orch] else report_json orch)"
  "console (save_report env orch) = console orch"
  "crashed (save_report env orch) = crashed orch"
  by (simp_all add: save_report_def)

lemma save_checkpoint_fields [simp]:
  "report (save_checkpoint env stage data orch) = report orch"
  "report_json (save_checkpoint env stage data orch) = report_json orch"
  "console (save_checkpoint env stage data orch) = console orch"
  "session_dir (save_checkpoint env stage data orch) = session_dir orch"
  "checkpoint_file (save_checkpoint env stage data orch) = checkpoint_file orch"
  by (simp_all add: save_checkpoint_def Let_def)

lemma save_checkpoint_crashed [simp]:
  "checkpoint_json orch \<noteq> NotAnObject \<Longrightarrow>
     crashed (save_checkpoint env stage data orch) = crashed orch"
  by (simp add: save_checkpoint_def Let_def)

lemma steps_4_to_6_keep [simp]:
  "checkpoint_json (run_steps_4_to_6 env i t a orch) = checkpoint_json orch"
  by (simp add: run_steps_4_to_6_def Let_def split: option.splits)

lemma steps_2_to_6_keep [simp]:
  "checkpoint_json (run_steps_2_to_6 env i t orch) = checkpoint_json orch"
  by (simp add: run_steps_2_to_6_def Let_def split: option.splits)

lemma get_official_repository_Some:
  "repos \<noteq> [] \<Longrightarrow> \<exists>r. get_official_repository repos = Some r"
  by (simp add: get_official_repository_def split: list.splits)

lemma reproduce_checkpoint:
  assumes "paper_name p = Some name" "session_dir_ok env"
  shows "checkpoint_json (reproduce_from_metadata env p i t orch) =
     checkpoint_json (save_checkpoint env ''initialized'' (JObject [(''paper'', p)])
        (orch\<lparr>session_dir := Some (name @ ''_'' @ stamp env),
                checkpoint_file := Some (name @ ''_'' @ stamp env @ ''/.checkpoint.json'')\<rparr>))"
  using assms
  by (simp add: reproduce_from_metadata_def Let_def save_checkpoint_def split: option.splits)

text \<open>
  The exceptions that leave a run before it has saved anything: a title that is not a
  string (the title \<^verbatim>\<open>None\<close> of a paper whose title was not found is one), and a
  session directory that cannot be created.
\<close>

lemma paper_name_examples:
  "paper_name (JObject []) = Some ''unknown''"
  "paper_name (JObject [(''title'', JString ''A paper'')]) = Some ''A_paper''"
  "paper_name (JObject [(''title'', JNull)]) = None"
  by (simp_all add: paper_name_def)

lemma reproduce_without_session:
  assumes "paper_name p = None \<or> \<not> session_dir_ok env"
  shows "crashed (reproduce env p i t orch)"
    and "checkpoint_json (reproduce env p i t orch) = checkpoint_json orch"
    and "report_json (reproduce env p i t orch) = report_json orch"
    and "console (reproduce env p i t orch) = console orch"
  using assms
  by (auto simp: reproduce_def reproduce_from_metadata_def Let_def split: option.splits)

lemma save_checkpoint_result:
  assumes "checkpoint_writable env" "checkpoint_file orch \<noteq> None"
    "checkpoint_json orch \<noteq> NotAnObject" "stage \<noteq> ''last_stage''"
  shows "\<exists>c. checkpoint_json (save_checkpoint env stage data orch) = Saved c \<and>
             map_of (stages c) stage = Some (checkpoint_at env, data) \<and>
             last_stage c = Some stage \<and>
             (\<forall>s. s \<noteq> stage \<longrightarrow>
                map_of (stages c) s =
                  (case checkpoint_json orch of Saved c0 \<Rightarrow> map_of (stages c0) s | _ \<Rightarrow> None)) \<and>
             (checkpoint_json orch = NoFile \<longrightarrow> stages c = [(stage, checkpoint_at env, data)])"
proof -
  obtain d where d: "checkpoint_file orch = Some d" using assms(2) by auto
  show ?thesis
    using assms(1,3,4) d
    by (cases "checkpoint_json orch") (simp_all add: save_checkpoint_def Let_def update_conv')
qed





lemma steps_4_to_6_executed:
  assumes "envs_dir_ok env" "env_success (choose_environment env i a)" "logs_dir_ok env"
    "choose_command env i a = Some command"
  shows "rep_success (report (run_steps_4_to_6 env i t a orch)) =
           success (execute (process_of env command) (Some (exec_timeout env i t)) True True)"
    and "rep_execution (report (run_steps_4_to_6 env i t a orch)) =
           Some (execute (process_of env command) (Some (exec_timeout env i t)) True True)"
    and "report_json (run_steps_4_to_6 env i t a orch) =
           (if report_writable env
            then report_json orch @ [report (run_steps_4_to_6 env i t a orch)]
            else report_json orch)"
    and "console (run_steps_4_to_6 env i t a orch) =
           console orch @
           [if success (execute (process_of env command) (Some (exec_timeout env i t)) True True)
            then ''Reproduction completed successfully!'' else ''Reproduction failed'',
            ''Report saved to: report.json'']"
    and "crashed (run_steps_4_to_6 env i t a orch) = crashed orch"
  using assms
  by (simp_all add: run_steps_4_to_6_def Let_def split: option.splits)

lemma new_orchestrator_fields [simp]:
  "report_json new_orchestrator = []" "console new_orchestrator = []"
  "\<not> crashed new_orchestrator" "\<not> rep_success (report new_orchestrator)"
  "checkpoint_json new_orchestrator = NoFile" "session_dir new_orchestrator = None"
  "checkpoint_file new_orchestrator = None"
  by (simp_all add: new_orchestrator_def)


lemma analysed_fields [simp]:
  "rep_success (report (analysed env orch)) = rep_success (report orch)"
  "report_json (analysed env orch) = report_json orch"
  "console (analysed env orch) = console orch"
  "crashed (analysed env orch) = crashed orch"
  by (simp_all add: analysed_def Let_def split: option.splits)



lemma discovered_fields [simp]:
  "rep_success (report (discovered env name p orch)) = rep_success (report orch)"
  "report_json (discovered env name p orch) = report_json orch"
  "console (discovered env name p orch) = console orch"
  by (simp_all add: discovered_def Let_def split: option.splits)

lemma discovered_crashed [simp]:
  "checkpoint_json orch \<noteq> NotAnObject \<Longrightarrow> crashed (discovered env name p orch) = crashed orch"
  by (simp add: discovered_def Let_def split: option.splits)





text \<open>
  C5, as amended. A run whose session directory exists (the title of the paper is a
  string or absent, and the directory could be created) writes one checkpoint, the one of
  the stage \<open>initialized\<close>, at its start: whatever the run does afterwards and however
  far it gets, the checkpoint file at its end is the one that this save left. A save
  that can write the file, once the path of the file is set and in a session directory
  whose checkpoint file does not hold JSON other than an object, leaves a readable checkpoint with an entry for its stage
  (the timestamp and the stage's data; the stage is not itself called \<open>last_stage\<close>)
  and with \<open>last_stage\<close> naming that stage; the entries of the other stages of a
  readable file are kept as they were, and in a session directory without a checkpoint
  file the entry is the only one.
\<close>

theorem checkpoint_only_initialized:
  "(paper_name p = Some name \<and> session_dir_ok env \<longrightarrow>
      checkpoint_json (reproduce env p i t orch) =
        checkpoint_json (save_checkpoint env ''initialized'' (JObject [(''paper'', p)])
          (orch\<lparr>session_dir := Some (name @ ''_'' @ stamp env),
                checkpoint_file := Some (name @ ''_'' @ stamp env @ ''/.checkpoint.json'')\<rparr>))) \<and>
   (checkpoint_writable env \<and> checkpoint_file orch \<noteq> None \<and>
    checkpoint_json orch \<noteq> NotAnObject \<and> stage \<noteq> ''last_stage'' \<longrightarrow>
      (\<exists>c. checkpoint_json (save_checkpoint env stage data orch) = Saved c \<and>
           map_of (stages c) stage = Some (checkpoint_at env, data) \<and>
           last_stage c = Some stage \<and>
           (\<forall>s. s \<noteq> stage \<longrightarrow>
              map_of (stages c) s =
                (case checkpoint_json orch of Saved c0 \<Rightarrow> map_of (stages c0) s | _ \<Rightarrow> None)) \<and>
           (checkpoint_json orch = NoFile \<longrightarrow> stages c = [(stage, checkpoint_at env, data)])))"
proof -
  have a: "checkpoint_json (reproduce env p i t orch) =
        checkpoint_json (save_checkpoint env ''initialized'' (JObject [(''paper'', p)])
          (orch\<lparr>session_dir := Some (name @ ''_'' @ stamp env),
                checkpoint_file := Some (name @ ''_'' @ stamp env @ ''/.checkpoint.json'')\<rparr>))"
    if "paper_name p = Some name" "session_dir_ok env"
    unfolding reproduce_def reproduce_checkpoint [OF that]
    by (simp add: save_checkpoint_def Let_def)
  have b: "\<exists>c. checkpoint_json (save_checkpoint env stage data orch) = Saved c \<and>
           map_of (stages c) stage = Some (checkpoint_at env, data) \<and>
           last_stage c = Some stage \<and>
           (\<forall>s. s \<noteq> stage \<longrightarrow>
              map_of (stages c) s =
                (case checkpoint_json orch of Saved c0 \<Rightarrow> map_of (stages c0) s | _ \<Rightarrow> None)) \<and>
           (checkpoint_json orch = NoFile \<longrightarrow> stages c = [(stage, checkpoint_at env, data)])"
    if "checkpoint_writable env" "checkpoint_file orch \<noteq> None"
      "checkpoint_json orch \<noteq> NotAnObject" "stage \<noteq> ''last_stage''"
    using that by (rule save_checkpoint_result)
  from a b show ?thesis by blast
qed

text \<open>
  Witness for C5: the run in which everything goes well, in a session directory without
  a checkpoint file.
\<close>

theorem checkpoint_only_initialized_witness:
  "checkpoint_json (reproduce example_env (JObject [(''title'', JString ''A paper'')]) False None
      (new_orchestrator\<lparr>session_dir := Some ''A_paper_20240101_000000'',
          checkpoint_file := Some ''A_paper_20240101_000000/.checkpoint.json''\<rparr>)) =
     checkpoint_json (save_checkpoint example_env ''initialized''
       (JObject [(''paper'', JObject [(''title'', JString ''A paper'')])])
       (new_orchestrator\<lparr>session_dir := Some ''A_paper_20240101_000000'',
          checkpoint_file := Some ''A_paper_20240101_000000/.checkpoint.json''\<rparr>)) \<and>
   checkpoint_json (save_checkpoint example_env ''initialized''
       (JObject [(''paper'', JObject [(''title'', JString ''A paper'')])])
       (new_orchestrator\<lparr>session_dir := Some ''A_paper_20240101_000000'',
          checkpoint_file := Some ''A_paper_20240101_000000/.checkpoint.json''\<rparr>)) =
     Saved \<lparr>stages = [(''initialized'', 0,
                        JObject [(''paper'', JObject [(''title'', JString ''A paper'')])])],
            last_stage = Some ''initialized''\<rparr>"
proof -
  let ?p = "JObject [(''title'', JString ''A paper'')]"
  let ?o = "new_orchestrator\<lparr>session_dir := Some ''A_paper_20240101_000000'',
              checkpoint_file := Some ''A_paper_20240101_000000/.checkpoint.json''\<rparr>"
  have w: "checkpoint_writable example_env" and z: "checkpoint_at example_env = 0"
    and s: "session_dir_ok example_env" and st: "stamp example_env = ''20240101_000000''"
    by (simp_all add: example_env_def)
  have n: "paper_name ?p = Some ''A_paper''" by (simp add: paper_name_def)
  have o: "checkpoint_file ?o \<noteq> None" "checkpoint_json ?o \<noteq> NotAnObject"
    "checkpoint_json ?o = NoFile"
    "?o\<lparr>session_dir := Some (''A_paper'' @ ''_'' @ stamp example_env),
        checkpoint_file := Some (''A_paper'' @ ''_'' @ stamp example_env @ ''/.checkpoint.json'')\<rparr> = ?o"
    by (simp_all add: st)
  have l: "''initialized'' \<noteq> ''last_stage''" by simp
  note t = checkpoint_only_initialized
    [of ?p "''A_paper''" example_env False None ?o "''initialized''" "JObject [(''paper'', ?p)]"]
  from t n s have t1: "checkpoint_json (reproduce example_env ?p False None ?o) =
      checkpoint_json (save_checkpoint example_env ''initialized'' (JObject [(''paper'', ?p)]) ?o)"
    unfolding o(4) by blast
  from t w o(1,2,3) l obtain c where
    c: "checkpoint_json (save_checkpoint example_env ''initialized''
          (JObject [(''paper'', ?p)]) ?o) = Saved c"
      "last_stage c = Some ''initialized''"
      "stages c = [(''initialized'', checkpoint_at example_env, JObject [(''paper'', ?p)])]"
    by blast
  have "c = \<lparr>stages = [(''initialized'', 0, JObject [(''paper'', ?p)])],
            last_stage = Some ''initialized''\<rparr>"
    using c(2,3) z by simp
  then show ?thesis using t1 c(1) by simp
qed

lemma example_environment:
  "choose_environment example_env False (repo_analysis example_env) =
     EnvInfo ''multi'' True [] [EnvInfo ''python_venv'' True [] []]"
  by (simp add: choose_environment_def example_env_def auto_setup_def language_setups_def
      combined_def setup_python_venv_def bare_host_def run_def install_setup_py_def Let_def)

lemma example_command:
  "choose_command example_env False (repo_analysis example_env) = Some ''python main.py''"
  by (simp add: choose_command_def example_env_def)

lemma example_execution:
  "execute (process_of example_env c) (Some (exec_timeout example_env False None)) True True =
     \<lparr>success = True, exit_code = Some 0, stdout = [], stderr = [], errors = [], warnings = [],
      timed_out = False\<rparr>"
  by (simp add: example_env_def exec_timeout_def execute_def run_process_def ExecutionResult_def
      timeout_expired_def written_def analyze_errors_def analyze_warnings_def Let_def)

text \<open>
  C5 as stated fails on the run in which everything goes well: repositories are
  discovered, one is selected, analysed and provisioned, the command is executed with
  success and the report is written, and the checkpoint still holds the entry of
  \<open>initialized\<close> only, which \<open>last_stage\<close> names.
\<close>

theorem checkpoint_only_initialized_counterexample:
  "rep_success (report (reproduce example_env (JObject []) False None new_orchestrator)) \<and>
   report_json (reproduce example_env (JObject []) False None new_orchestrator) =
     [report (reproduce example_env (JObject []) False None new_orchestrator)] \<and>
   checkpoint_json (reproduce example_env (JObject []) False None new_orchestrator) =
     Saved \<lparr>stages = [(''initialized'', 0, JObject [(''paper'', JObject [])])],
            last_stage = Some ''initialized''\<rparr>"
proof -
  have f: "found_repos example_env \<noteq> []" "clone_ok example_env" "agent example_env = None"
    "report_writable example_env" "checkpoint_writable example_env" "checkpoint_at example_env = 0"
    "session_dir_ok example_env" "envs_dir_ok example_env" "logs_dir_ok example_env"
    by (simp_all add: example_env_def)
  obtain r where r: "get_official_repository (found_repos example_env) = Some r"
    using get_official_repository_Some [OF f(1)] by blast
  have e: "env_success (choose_environment example_env False (repo_analysis example_env))"
    by (simp add: example_environment)
  note x = steps_4_to_6_executed [OF f(8) e f(9) example_command]
  show ?thesis
    using f r
    by (simp add: reproduce_def reproduce_from_metadata_def run_steps_2_to_6_def Let_def x
        example_execution save_checkpoint_def new_orchestrator_def paper_name_def)
qed



end
